theory Spec2Isabelle
  imports Complex_Main
begin

section \<open>Values, columns and the dataset\<close>

text \<open>
  The module \<^verbatim>\<open>eda_tools.py\<close> holds one function, \<^verbatim>\<open>num_variable_analysis\<close>. It
  reads a pandas DataFrame, calls matplotlib and seaborn to draw, prints text and
  returns either \<^verbatim>\<open>None\<close> or a pair of correlation coefficients.

  A cell of a column is a missing value, a number or a string. Numbers are reals: the
  rounding of floating point arithmetic is not modelled. A DataFrame is the list of its
  named columns, with distinct names; \<^verbatim>\<open>df[name]\<close> looks the name up and raises
  \<^verbatim>\<open>KeyError\<close> when it is not a column.
\<close>

datatype cell = NaN | Num real | Str string

type_synonym series = "cell list"

type_synonym frame = "(string \<times> series) list"

datatype py_error =
    AssertionError string
  | KeyError string
  | TypeError
  | AttributeError
  | LibraryError string

fun is_str :: "cell \<Rightarrow> bool" where
  "is_str (Str s) = True"
| "is_str c = False"

fun numbers :: "series \<Rightarrow> real list" where
  "numbers [] = []"
| "numbers (Num x # cs) = x # numbers cs"
| "numbers (c # cs) = numbers cs"

text \<open>
  \<^verbatim>\<open>Series.max()\<close> and \<^verbatim>\<open>Series.min()\<close> skip missing values and give \<^verbatim>\<open>nan\<close> when
  nothing is left. On a column that holds strings the subtraction of line 70 raises
  \<^verbatim>\<open>TypeError\<close>; the model raises it where the extremum is taken.
\<close>

definition nan_max :: "series \<Rightarrow> cell" where
  "nan_max s = (case numbers s of [] \<Rightarrow> NaN | x # xs \<Rightarrow> Num (fold max xs x))"

definition nan_min :: "series \<Rightarrow> cell" where
  "nan_min s = (case numbers s of [] \<Rightarrow> NaN | x # xs \<Rightarrow> Num (fold min xs x))"

definition series_max :: "series \<Rightarrow> py_error + cell" where
  "series_max s = (if list_ex is_str s then Inl TypeError else Inr (nan_max s))"

definition series_min :: "series \<Rightarrow> py_error + cell" where
  "series_min s = (if list_ex is_str s then Inl TypeError else Inr (nan_min s))"

text \<open>Arithmetic on cells that hold numbers; \<^verbatim>\<open>nan\<close> propagates.\<close>

fun cell_sub :: "cell \<Rightarrow> cell \<Rightarrow> cell" where
  "cell_sub (Num a) (Num b) = Num (a - b)"
| "cell_sub a b = NaN"

fun cell_add :: "cell \<Rightarrow> cell \<Rightarrow> cell" where
  "cell_add (Num a) (Num b) = Num (a + b)"
| "cell_add a b = NaN"

fun cell_scale :: "real \<Rightarrow> cell \<Rightarrow> cell" where
  "cell_scale k (Num a) = Num (k * a)"
| "cell_scale k a = NaN"

text \<open>\<^verbatim>\<open>Series.isna().sum()\<close>: the number of missing entries.\<close>

definition isna_sum :: "series \<Rightarrow> nat" where
  "isna_sum s = length (filter (\<lambda>c. c = NaN) s)"

text \<open>
  \<^verbatim>\<open>Series.unique()\<close>: the distinct values in order of first appearance (a missing
  value counts once).
\<close>

fun unique :: "series \<Rightarrow> series" where
  "unique [] = []"
| "unique (c # cs) = c # filter (\<lambda>d. d \<noteq> c) (unique cs)"

text \<open>
  \<^verbatim>\<open>df[target_name] == value_targ\<close> is a boolean mask; a missing value equals nothing,
  itself included. \<^verbatim>\<open>df[mask][item]\<close> keeps the rows of the mask.
\<close>

definition eq_mask :: "series \<Rightarrow> cell \<Rightarrow> bool list" where
  "eq_mask s v = map (\<lambda>c. c \<noteq> NaN \<and> c = v) s"

definition select_rows :: "bool list \<Rightarrow> series \<Rightarrow> series" where
  "select_rows m s = map snd (filter fst (zip m s))"

definition count_rows :: "bool list \<Rightarrow> nat" where
  "count_rows m = length (filter id m)"

section \<open>Optional arguments\<close>

text \<open>
  \<^verbatim>\<open>data_info\<close> is \<^verbatim>\<open>None\<close>, a DataFrame indexed by column names, or any other object
  (on which \<^verbatim>\<open>.loc[item, :]\<close> fails). \<^verbatim>\<open>descr_dict\<close> is \<^verbatim>\<open>None\<close> or a dictionary.
\<close>

type_synonym info_row = "(string \<times> string) list"

datatype data_info = NoDataInfo | InfoFrame "(string \<times> info_row) list" | NotAFrame

definition loc_row :: "data_info \<Rightarrow> string \<Rightarrow> py_error + info_row list" where
  "loc_row data_info item =
     (case data_info of
        NoDataInfo \<Rightarrow> Inl AttributeError
      | NotAFrame \<Rightarrow> Inl AttributeError
      | InfoFrame rows \<Rightarrow>
          (case filter (\<lambda>r. fst r = item) rows of
             [] \<Rightarrow> Inl (KeyError item)
           | r # rs \<Rightarrow> Inr (map snd (r # rs))))"

definition getitem :: "(string \<rightharpoonup> string) option \<Rightarrow> string \<Rightarrow> py_error + string" where
  "getitem descr_dict item =
     (case descr_dict of
        None \<Rightarrow> Inl TypeError
      | Some d \<Rightarrow> (case d item of None \<Rightarrow> Inl (KeyError item) | Some v \<Rightarrow> Inr v))"

datatype bins = BinCount nat | BinEdges "real list"

datatype color = ColorName string | ColorSeq "real list"

section \<open>The library\<close>

text \<open>
  What pandas computes in floating point and how Python formats a float are not part
  of the module; they are parameters of the model. \<open>corr m a b\<close> is the entry
  \<^verbatim>\<open>df[[item, target_name]].corr(method=m).loc[item, target_name]\<close> for the two columns,
  \<open>format_3g\<close> is the format \<^verbatim>\<open>:.3g\<close>, \<open>repr_float\<close> is \<^verbatim>\<open>str\<close> of a number.
\<close>

datatype corr_method = Pearson | Spearman

record library =
  corr :: "corr_method \<Rightarrow> series \<Rightarrow> series \<Rightarrow> py_error + cell"
  format_3g :: "cell \<Rightarrow> string"
  repr_float :: "real \<Rightarrow> string"

definition format_value :: "library \<Rightarrow> cell \<Rightarrow> string" where
  "format_value lib c = (case c of Str s \<Rightarrow> s | NaN \<Rightarrow> ''nan'' | Num x \<Rightarrow> repr_float lib x)"

definition apostrophe :: char where
  "apostrophe = CHR 0x27"

definition backquote :: char where
  "backquote = CHR 0x60"

definition newline :: char where
  "newline = CHR 0x0A"

function str_nat :: "nat \<Rightarrow> string" where
  "str_nat n =
     (if n < 10 then [char_of (48 + n)]
      else str_nat (n div 10) @ [char_of (48 + n mod 10)])"
  by pat_completeness auto
termination
  by (relation "measure id") auto

declare str_nat.simps [simp del]

section \<open>Effects\<close>

text \<open>
  The calls to matplotlib, seaborn, \<^verbatim>\<open>print\<close> and \<^verbatim>\<open>display\<close> are recorded in the order
  they are made. A plotting call is recorded as made; what the plotting library does
  with it is outside the module. \<^verbatim>\<open>display\<close> is the builtin of an IPython session.
\<close>

datatype shown = InfoRows "info_row list" | Describer series

datatype event =
    Subplots nat
  | Subplot nat nat
  | Histplot string bins color
  | Boxenplot "series option" series "color option"
  | Plot series series color
  | Kdeplot series string
  | Ylim cell cell
  | Ylabel string
  | Xticks nat
  | Title string int
  | Legend int
  | Show
  | Print string
  | Display shown

record world =
  dataset :: frame
  trace :: "event list"

type_synonym 'a py = "world \<Rightarrow> (py_error + 'a) \<times> world"

definition ret :: "'a \<Rightarrow> 'a py" where
  "ret x w = (Inr x, w)"

definition raise :: "py_error \<Rightarrow> 'a py" where
  "raise e w = (Inl e, w)"

definition lift :: "py_error + 'a \<Rightarrow> 'a py" where
  "lift r w = (r, w)"

definition then_py :: "'a py \<Rightarrow> ('a \<Rightarrow> 'b py) \<Rightarrow> 'b py" where
  "then_py m f w = (case m w of (Inl e, w') \<Rightarrow> (Inl e, w') | (Inr x, w') \<Rightarrow> f x w')"

definition try_except :: "unit py \<Rightarrow> unit py \<Rightarrow> unit py" where
  "try_except body handler w =
     (case body w of (Inl e, w') \<Rightarrow> handler w' | (Inr x, w') \<Rightarrow> (Inr x, w'))"

definition emit :: "event \<Rightarrow> unit py" where
  "emit e w = (Inr (), w\<lparr>trace := trace w @ [e]\<rparr>)"

definition column :: "string \<Rightarrow> series py" where
  "column name w =
     (case map_of (dataset w) name of
        None \<Rightarrow> (Inl (KeyError name), w)
      | Some s \<Rightarrow> (Inr s, w))"

section \<open>The function\<close>

definition assert_msg :: string where
  "assert_msg = ''Please define '' @ [backquote] @ ''target_type'' @ [backquote] @ '' as ''
     @ [apostrophe] @ ''numeric'' @ [apostrophe] @ '' or ''
     @ [apostrophe] @ ''categorical'' @ [apostrophe]"

text \<open>Lines 70 to 72: the range of the value axis.\<close>

definition item_range :: "string \<Rightarrow> cell py" where
  "item_range item =
     then_py (column item) (\<lambda>a.
     then_py (lift (series_max a)) (\<lambda>mx.
     then_py (column item) (\<lambda>b.
     then_py (lift (series_min b)) (\<lambda>mn.
     ret (cell_sub mx mn)))))"

definition y_min :: "string \<Rightarrow> cell \<Rightarrow> cell py" where
  "y_min item rng =
     then_py (column item) (\<lambda>a.
     then_py (lift (series_min a)) (\<lambda>mn.
     ret (cell_sub mn (cell_scale 0.05 rng))))"

definition y_max :: "string \<Rightarrow> cell \<Rightarrow> cell py" where
  "y_max item rng =
     then_py (column item) (\<lambda>a.
     then_py (lift (series_max a)) (\<lambda>mx.
     ret (cell_add mx (cell_scale 0.05 rng))))"

text \<open>Lines 75 to 79: the histogram.\<close>

definition fig1 :: "nat \<Rightarrow> string \<Rightarrow> bins \<Rightarrow> color \<Rightarrow> int \<Rightarrow> cell \<Rightarrow> cell \<Rightarrow> unit py" where
  "fig1 nx item bins color fontsize lo hi =
     then_py (emit (Subplot nx 1)) (\<lambda>_.
     then_py (emit (Histplot item bins color)) (\<lambda>_.
     then_py (emit (Ylim lo hi)) (\<lambda>_.
     then_py (emit (Xticks 90)) (\<lambda>_.
     emit (Title (''Distribition of '' @ item) fontsize)))))"

text \<open>Lines 82 to 90: the boxen plot.\<close>

definition fig2 ::
  "nat \<Rightarrow> string \<Rightarrow> string \<Rightarrow> string \<Rightarrow> color \<Rightarrow> int \<Rightarrow> cell \<Rightarrow> cell \<Rightarrow> unit py" where
  "fig2 nx item target_name target_type color fontsize lo hi =
     then_py (emit (Subplot nx 2)) (\<lambda>_.
     then_py
       (if target_type = ''numeric'' then
          then_py (column item) (\<lambda>y. emit (Boxenplot None y (Some color)))
        else
          then_py (column target_name) (\<lambda>x.
          then_py (column item) (\<lambda>y.
          then_py (emit (Boxenplot (Some x) y None)) (\<lambda>_.
          emit (Xticks 90))))) (\<lambda>_.
     then_py (emit (Ylim lo hi)) (\<lambda>_.
     then_py (emit (Ylabel [])) (\<lambda>_.
     emit (Title item fontsize)))))"

text \<open>Lines 102 to 107: one density curve for each value of the target.\<close>

fun kde_loop :: "library \<Rightarrow> string \<Rightarrow> string \<Rightarrow> int \<Rightarrow> cell list \<Rightarrow> unit py" where
  "kde_loop lib item target_name fontsize [] = ret ()"
| "kde_loop lib item target_name fontsize (v # vs) =
     then_py (column target_name) (\<lambda>t1.
     then_py (column item) (\<lambda>y.
     then_py (column target_name) (\<lambda>t2.
     then_py (emit (Kdeplot (select_rows (eq_mask t1 v) y)
        (format_value lib v @ '': '' @ str_nat (count_rows (eq_mask t2 v))))) (\<lambda>_.
     then_py (emit (Title item fontsize)) (\<lambda>_.
     then_py (emit (Legend (fontsize - 1))) (\<lambda>_.
     kde_loop lib item target_name fontsize vs))))))"

text \<open>Lines 94 to 108: the third panel.\<close>

definition fig3 ::
  "library \<Rightarrow> nat \<Rightarrow> string \<Rightarrow> string \<Rightarrow> string \<Rightarrow> color \<Rightarrow> int \<Rightarrow> cell \<Rightarrow> cell \<Rightarrow> unit py"
  where
  "fig3 lib nx item target_name target_type color fontsize lo hi =
     (if item \<noteq> target_name then
        then_py (emit (Subplot nx 3)) (\<lambda>_.
        then_py
          (if target_type = ''numeric'' then
             then_py (column target_name) (\<lambda>x.
             then_py (column item) (\<lambda>y.
             then_py (emit (Plot x y color)) (\<lambda>_.
             emit (Xticks 90))))
           else if target_type = ''categorical'' then
             then_py (column target_name) (\<lambda>t.
             kde_loop lib item target_name fontsize (unique t))
           else ret ()) (\<lambda>_.
        emit (Ylim lo hi)))
      else ret ())"

text \<open>Lines 111 to 119: the printed statistics.\<close>

definition missing_msg :: "nat \<Rightarrow> string \<Rightarrow> string" where
  "missing_msg n item =
     ''There are '' @ str_nat n @ '' missing values in '' @ [apostrophe] @ item
       @ [apostrophe, newline] @ ''.''"

definition descriptive_statistics :: "string \<Rightarrow> data_info \<Rightarrow> unit py" where
  "descriptive_statistics item data_info =
     then_py (column item) (\<lambda>d.
     then_py (emit (Print (''==== '' @ item @ '' ===='')))  (\<lambda>_.
     then_py
       (try_except
          (then_py (lift (loc_row data_info item)) (\<lambda>rows. emit (Display (InfoRows rows))))
          (then_py (column item) (\<lambda>c. emit (Print (missing_msg (isna_sum c) item))))) (\<lambda>_.
     then_py (emit (Print ''>>> Statistics:'')) (\<lambda>_.
     emit (Display (Describer d))))))"

text \<open>Lines 122 to 132: the correlation coefficients.\<close>

definition pearson_msg :: "library \<Rightarrow> string \<Rightarrow> string \<Rightarrow> cell \<Rightarrow> string" where
  "pearson_msg lib item target_name p =
     ''  Pearson'' @ [apostrophe] @ ''s  correlation coefficient between '' @ [apostrophe]
       @ item @ [apostrophe] @ '' and '' @ [apostrophe] @ target_name @ [apostrophe]
       @ '' is '' @ format_3g lib p @ ''.''"

definition spearman_msg :: "library \<Rightarrow> string \<Rightarrow> string \<Rightarrow> cell \<Rightarrow> string" where
  "spearman_msg lib item target_name s =
     ''  Spearman'' @ [apostrophe] @ ''s correlation coefficient between '' @ [apostrophe]
       @ item @ [apostrophe] @ '' and '' @ [apostrophe] @ target_name @ [apostrophe]
       @ '' is '' @ format_3g lib s @ ''.'' @ [newline, newline]"

definition corr_title :: "library \<Rightarrow> cell \<Rightarrow> cell \<Rightarrow> string" where
  "corr_title lib p s =
     ''Spearman'' @ [apostrophe] @ ''s corr.coeff. = '' @ format_3g lib s @ [newline]
       @ ''Pearson'' @ [apostrophe] @ ''s corr.coeff. = '' @ format_3g lib p"

definition corr_entry :: "library \<Rightarrow> corr_method \<Rightarrow> string \<Rightarrow> string \<Rightarrow> cell py" where
  "corr_entry lib m item target_name =
     then_py (column item) (\<lambda>a.
     then_py (column target_name) (\<lambda>b.
     lift (corr lib m a b)))"

definition correlation ::
  "library \<Rightarrow> string \<Rightarrow> string \<Rightarrow> string \<Rightarrow> int \<Rightarrow> (cell \<times> cell) option py" where
  "correlation lib item target_name target_type fontsize =
     (if item \<noteq> target_name then
        (if target_type = ''numeric'' then
           then_py (corr_entry lib Pearson item target_name) (\<lambda>pearson_coeff.
           then_py (corr_entry lib Spearman item target_name) (\<lambda>spearman_coeff.
           then_py (emit (Print ''>>> Correlation:'')) (\<lambda>_.
           then_py (emit (Print (pearson_msg lib item target_name pearson_coeff))) (\<lambda>_.
           then_py (emit (Print (spearman_msg lib item target_name spearman_coeff))) (\<lambda>_.
           then_py (emit (Title (corr_title lib pearson_coeff spearman_coeff) fontsize)) (\<lambda>_.
           ret (Some (pearson_coeff, spearman_coeff))))))))
         else ret None)
      else ret None)"

text \<open>Lines 136 to 139: the conclusion.\<close>

definition conclusion :: "(string \<rightharpoonup> string) option \<Rightarrow> string \<Rightarrow> unit py" where
  "conclusion descr_dict item =
     try_except
       (then_py (lift (getitem descr_dict item)) (\<lambda>v. emit (Print (''>>> CONCLUSION: '' @ v))))
       (ret ())"

text \<open>
  The function. The DataFrame \<^verbatim>\<open>df\<close> is the \<open>dataset\<close> of the world the call runs in;
  the result is the exception raised or the value returned, with the world after the
  call.
\<close>

definition num_variable_analysis ::
  "library \<Rightarrow> string \<Rightarrow> string \<Rightarrow> string \<Rightarrow> bins \<Rightarrow> color \<Rightarrow> int
     \<Rightarrow> (string \<rightharpoonup> string) option \<Rightarrow> data_info \<Rightarrow> (cell \<times> cell) option py" where
  "num_variable_analysis lib item target_name target_type bins color fontsize
       descr_dict data_info =
     (if target_type \<notin> set [''numeric'', ''categorical''] then
        raise (AssertionError assert_msg)
      else
        then_py (ret (if item \<noteq> target_name then 3 else 2)) (\<lambda>nx.
        then_py (emit (Subplots nx)) (\<lambda>_.
        then_py (item_range item) (\<lambda>rng.
        then_py (y_min item rng) (\<lambda>lo.
        then_py (y_max item rng) (\<lambda>hi.
        then_py (fig1 nx item bins color fontsize lo hi) (\<lambda>_.
        then_py (fig2 nx item target_name target_type color fontsize lo hi) (\<lambda>_.
        then_py (fig3 lib nx item target_name target_type color fontsize lo hi) (\<lambda>_.
        then_py (descriptive_statistics item data_info) (\<lambda>_.
        then_py (correlation lib item target_name target_type fontsize) (\<lambda>result.
        then_py (emit Show) (\<lambda>_.
        then_py (conclusion descr_dict item) (\<lambda>_.
        then_py (emit (Print [newline, newline])) (\<lambda>_.
        ret result))))))))))))))"

section \<open>Observing a call\<close>

text \<open>The events a call adds to the trace of the world it starts in.\<close>

definition emitted :: "'a py \<Rightarrow> world \<Rightarrow> event list" where
  "emitted m w = drop (length (trace w)) (trace (snd (m w)))"

text \<open>The figures created, each with its number of panels.\<close>

fun figures :: "event list \<Rightarrow> nat list" where
  "figures [] = []"
| "figures (Subplots n # es) = n # figures es"
| "figures (e # es) = figures es"

text \<open>The panels selected with \<^verbatim>\<open>plt.subplot(1, n, k)\<close>, as pairs \<open>(n, k)\<close>.\<close>

fun selected :: "event list \<Rightarrow> (nat \<times> nat) list" where
  "selected [] = []"
| "selected (Subplot n k # es) = (n, k) # selected es"
| "selected (e # es) = selected es"

text \<open>
  The calls of \<^verbatim>\<open>plt.ylim\<close>, each with the panel that is current when it is made:
  \<^verbatim>\<open>plt.subplot(1, n, k)\<close> makes panel \<open>k\<close> current.
\<close>

fun ylim_calls :: "nat \<Rightarrow> event list \<Rightarrow> (nat \<times> cell \<times> cell) list" where
  "ylim_calls cur [] = []"
| "ylim_calls cur (Subplot n k # es) = ylim_calls k es"
| "ylim_calls cur (Ylim lo hi # es) = (cur, lo, hi) # ylim_calls cur es"
| "ylim_calls cur (e # es) = ylim_calls cur es"

text \<open>A printed line that starts with the label of the conclusion.\<close>

fun conclusion_line :: "event \<Rightarrow> bool" where
  "conclusion_line (Print s) = (take 15 s = ''>>> CONCLUSION:'')"
| "conclusion_line e = False"

text \<open>The events that follow \<^verbatim>\<open>plt.show()\<close>.\<close>

fun after_show :: "event list \<Rightarrow> event list" where
  "after_show [] = []"
| "after_show (Show # es) = es"
| "after_show (e # es) = after_show es"

text \<open>
  A call run on a dataset from an empty trace, and the calls that read the dataset,
  leave it as it is and only add events.
\<close>

definition run_on :: "'a py \<Rightarrow> frame \<Rightarrow> (py_error + 'a) \<times> event list" where
  "run_on m d = (case m \<lparr>dataset = d, trace = []\<rparr> of (r, w') \<Rightarrow> (r, trace w'))"

definition tidy :: "'a py \<Rightarrow> bool" where
  "tidy m =
     (\<forall>w. m w = (fst (run_on m (dataset w)),
                 w\<lparr>trace := trace w @ snd (run_on m (dataset w))\<rparr>))"

section \<open>An example\<close>

text \<open>
  The dataset of the specification's example: a column \<^verbatim>\<open>age\<close> with one missing
  value and a numeric target \<^verbatim>\<open>price\<close>; and a library whose coefficients are
  \<^verbatim>\<open>nan\<close>.
\<close>

definition example_frame :: frame where
  "example_frame =
     [(''age'', [Num 20, Num 25, NaN, Num 40]),
      (''price'', [Num 10, Num 20, Num 30, Num 40])]"

definition example_world :: world where
  "example_world = \<lparr>dataset = example_frame, trace = []\<rparr>"

definition nan_library :: library where
  "nan_library =
     \<lparr>corr = (\<lambda>m a b. Inr NaN), format_3g = (\<lambda>c. ''nan''), repr_float = (\<lambda>x. ''0.0'')\<rparr>"

section \<open>Rules for calls\<close>

lemma tidy_ret: "tidy (ret x)"
  by (simp add: tidy_def run_on_def ret_def)

lemma tidy_raise: "tidy (raise e)"
  by (simp add: tidy_def run_on_def raise_def)

lemma tidy_lift: "tidy (lift r)"
  by (simp add: tidy_def run_on_def lift_def)

lemma tidy_emit: "tidy (emit e)"
  by (simp add: tidy_def run_on_def emit_def)

lemma tidy_column: "tidy (column n)"
  by (simp add: tidy_def run_on_def column_def split: option.splits)

lemma tidy_if: "tidy a \<Longrightarrow> tidy b \<Longrightarrow> tidy (if c then a else b)"
  by simp

lemma tidy_run:
  assumes "tidy m" and "run_on m (dataset w) = (r, t)"
  shows "m w = (r, w\<lparr>trace := trace w @ t\<rparr>)"
  using assms by (simp add: tidy_def)

lemma run_on_then:
  assumes "tidy m" and "\<And>x. tidy (f x)"
  shows "run_on (then_py m f) d =
     (case run_on m d of
        (Inl e, t) \<Rightarrow> (Inl e, t)
      | (Inr x, t) \<Rightarrow> (case run_on (f x) d of (r, t') \<Rightarrow> (r, t @ t')))"
proof -
  let ?w = "\<lparr>dataset = d, trace = []\<rparr>"
  obtain r t where rt: "run_on m d = (r, t)"
    by (cases "run_on m d")
  have m: "m ?w = (r, ?w\<lparr>trace := t\<rparr>)"
    using tidy_run [OF assms(1), of ?w r t] rt by simp
  show ?thesis
  proof (cases r)
    case (Inl e)
    have "then_py m f ?w = (Inl e, ?w\<lparr>trace := t\<rparr>)"
      by (simp add: then_py_def m Inl)
    then have "run_on (then_py m f) d = (Inl e, t)"
      by (simp add: run_on_def)
    then show ?thesis
      by (simp add: rt Inl)
  next
    case (Inr x)
    obtain r' t' where rt': "run_on (f x) d = (r', t')"
      by (cases "run_on (f x) d")
    have "f x (?w\<lparr>trace := t\<rparr>) = (r', ?w\<lparr>trace := t @ t'\<rparr>)"
      using tidy_run [OF assms(2), of x "?w\<lparr>trace := t\<rparr>" r' t'] rt' by simp
    then have "then_py m f ?w = (r', ?w\<lparr>trace := t @ t'\<rparr>)"
      by (simp add: then_py_def m Inr)
    then have "run_on (then_py m f) d = (r', t @ t')"
      by (simp add: run_on_def)
    then show ?thesis
      by (simp add: rt rt' Inr)
  qed
qed

lemma tidy_then:
  assumes "tidy m" and "\<And>x. tidy (f x)"
  shows "tidy (then_py m f)"
  unfolding tidy_def
proof
  fix w :: world
  obtain r t where rt: "run_on m (dataset w) = (r, t)"
    by (cases "run_on m (dataset w)")
  have m: "m w = (r, w\<lparr>trace := trace w @ t\<rparr>)"
    by (rule tidy_run [OF assms(1) rt])
  show "then_py m f w = (fst (run_on (then_py m f) (dataset w)),
      w\<lparr>trace := trace w @ snd (run_on (then_py m f) (dataset w))\<rparr>)"
  proof (cases r)
    case (Inl e)
    then show ?thesis
      by (simp add: run_on_then [OF assms] then_py_def m rt)
  next
    case (Inr x)
    obtain r' t' where rt': "run_on (f x) (dataset w) = (r', t')"
      by (cases "run_on (f x) (dataset w)")
    have "f x (w\<lparr>trace := trace w @ t\<rparr>) = (r', w\<lparr>trace := trace w @ t @ t'\<rparr>)"
      using tidy_run [OF assms(2), of x "w\<lparr>trace := trace w @ t\<rparr>" r' t'] rt' by simp
    then show ?thesis
      by (simp add: run_on_then [OF assms] then_py_def m rt rt' Inr)
  qed
qed

lemma run_on_try:
  assumes "tidy b" and "tidy h"
  shows "run_on (try_except b h) d =
     (case run_on b d of
        (Inl e, t) \<Rightarrow> (case run_on h d of (r, t') \<Rightarrow> (r, t @ t'))
      | (Inr x, t) \<Rightarrow> (Inr x, t))"
proof -
  let ?w = "\<lparr>dataset = d, trace = []\<rparr>"
  obtain r t where rt: "run_on b d = (r, t)"
    by (cases "run_on b d")
  have b: "b ?w = (r, ?w\<lparr>trace := t\<rparr>)"
    using tidy_run [OF assms(1), of ?w r t] rt by simp
  show ?thesis
  proof (cases r)
    case (Inr x)
    have "try_except b h ?w = (Inr x, ?w\<lparr>trace := t\<rparr>)"
      by (simp add: try_except_def b Inr)
    then have "run_on (try_except b h) d = (Inr x, t)"
      by (simp add: run_on_def)
    then show ?thesis
      by (simp add: rt Inr)
  next
    case (Inl e)
    obtain r' t' where rt': "run_on h d = (r', t')"
      by (cases "run_on h d")
    have "h (?w\<lparr>trace := t\<rparr>) = (r', ?w\<lparr>trace := t @ t'\<rparr>)"
      using tidy_run [OF assms(2), of "?w\<lparr>trace := t\<rparr>" r' t'] rt' by simp
    then have "try_except b h ?w = (r', ?w\<lparr>trace := t @ t'\<rparr>)"
      by (simp add: try_except_def b Inl)
    then have "run_on (try_except b h) d = (r', t @ t')"
      by (simp add: run_on_def)
    then show ?thesis
      by (simp add: rt rt' Inl)
  qed
qed

lemma tidy_try:
  assumes "tidy b" and "tidy h"
  shows "tidy (try_except b h)"
  unfolding tidy_def
proof
  fix w :: world
  obtain r t where rt: "run_on b (dataset w) = (r, t)"
    by (cases "run_on b (dataset w)")
  have b: "b w = (r, w\<lparr>trace := trace w @ t\<rparr>)"
    by (rule tidy_run [OF assms(1) rt])
  show "try_except b h w = (fst (run_on (try_except b h) (dataset w)),
      w\<lparr>trace := trace w @ snd (run_on (try_except b h) (dataset w))\<rparr>)"
  proof (cases r)
    case (Inr x)
    then show ?thesis
      by (simp add: run_on_try [OF assms] try_except_def b rt)
  next
    case (Inl e)
    obtain r' t' where rt': "run_on h (dataset w) = (r', t')"
      by (cases "run_on h (dataset w)")
    have "h (w\<lparr>trace := trace w @ t\<rparr>) = (r', w\<lparr>trace := trace w @ t @ t'\<rparr>)"
      using tidy_run [OF assms(2), of "w\<lparr>trace := trace w @ t\<rparr>" r' t'] rt' by simp
    then show ?thesis
      by (simp add: run_on_try [OF assms] try_except_def b rt rt' Inl)
  qed
qed

lemma run_on_ret: "run_on (ret x) d = (Inr x, [])"
  by (simp add: run_on_def ret_def)

lemma run_on_raise: "run_on (raise e) d = (Inl e, [])"
  by (simp add: run_on_def raise_def)

lemma run_on_lift: "run_on (lift r) d = (r, [])"
  by (simp add: run_on_def lift_def)

lemma run_on_emit: "run_on (emit e) d = (Inr (), [e])"
  by (simp add: run_on_def emit_def)

lemma run_on_column:
  "run_on (column n) d =
     (case map_of d n of None \<Rightarrow> (Inl (KeyError n), []) | Some s \<Rightarrow> (Inr s, []))"
  by (simp add: run_on_def column_def split: option.splits)

lemmas tidy_intros =
  tidy_ret tidy_raise tidy_lift tidy_emit tidy_column tidy_if tidy_then tidy_try

lemma tidy_fig1: "tidy (fig1 nx item bins color fontsize lo hi)"
  unfolding fig1_def by (intro tidy_intros)

lemma tidy_fig2: "tidy (fig2 nx item target_name target_type color fontsize lo hi)"
  unfolding fig2_def by (intro tidy_intros)

lemma tidy_kde_loop: "tidy (kde_loop lib item target_name fontsize vs)"
  by (induction vs) (simp_all add: tidy_intros)

lemma tidy_fig3: "tidy (fig3 lib nx item target_name target_type color fontsize lo hi)"
  unfolding fig3_def by (intro tidy_intros tidy_kde_loop)

lemma tidy_item_range: "tidy (item_range item)"
  unfolding item_range_def by (intro tidy_intros)

lemma tidy_y_min: "tidy (y_min item rng)"
  unfolding y_min_def by (intro tidy_intros)

lemma tidy_y_max: "tidy (y_max item rng)"
  unfolding y_max_def by (intro tidy_intros)

lemma tidy_descriptive_statistics: "tidy (descriptive_statistics item data_info)"
  unfolding descriptive_statistics_def by (intro tidy_intros)

lemma tidy_corr_entry: "tidy (corr_entry lib m item target_name)"
  unfolding corr_entry_def by (intro tidy_intros)

lemma tidy_correlation: "tidy (correlation lib item target_name target_type fontsize)"
  unfolding correlation_def by (intro tidy_intros tidy_corr_entry)

lemma tidy_conclusion: "tidy (conclusion descr_dict item)"
  unfolding conclusion_def by (intro tidy_intros)

lemmas tidy_sections =
  tidy_fig1 tidy_fig2 tidy_fig3 tidy_item_range tidy_y_min tidy_y_max
  tidy_descriptive_statistics tidy_correlation tidy_conclusion tidy_kde_loop tidy_corr_entry

lemma tidy_num_variable_analysis:
  "tidy (num_variable_analysis lib item target_name target_type bins color fontsize
     descr_dict data_info)"
  unfolding num_variable_analysis_def by (intro tidy_intros tidy_sections)

lemmas run_on_simps =
  run_on_then run_on_try run_on_ret run_on_raise run_on_lift run_on_emit run_on_column
  tidy_intros tidy_sections



lemma run_on_kde_loop:
  assumes "map_of d item = Some a" and "map_of d target_name = Some b"
  shows "run_on (kde_loop lib item target_name fontsize vs) d =
     (Inr (), concat (map (\<lambda>v.
        [Kdeplot (select_rows (eq_mask b v) a)
           (format_value lib v @ '': '' @ str_nat (count_rows (eq_mask b v))),
         Title item fontsize, Legend (fontsize - 1)]) vs))"
  using assms by (induction vs) (simp_all add: run_on_simps)

lemma run_on_item_range:
  "run_on (item_range item) d =
     (case map_of d item of
        None \<Rightarrow> (Inl (KeyError item), [])
      | Some a \<Rightarrow>
          if list_ex is_str a then (Inl TypeError, [])
          else (Inr (cell_sub (nan_max a) (nan_min a)), []))"
  by (simp add: item_range_def run_on_simps series_max_def series_min_def split: option.splits)

lemma run_on_y_min:
  "map_of d item = Some a \<Longrightarrow> \<not> list_ex is_str a \<Longrightarrow>
     run_on (y_min item rng) d = (Inr (cell_sub (nan_min a) (cell_scale 0.05 rng)), [])"
  by (simp add: y_min_def run_on_simps series_min_def)

lemma run_on_y_max:
  "map_of d item = Some a \<Longrightarrow> \<not> list_ex is_str a \<Longrightarrow>
     run_on (y_max item rng) d = (Inr (cell_add (nan_max a) (cell_scale 0.05 rng)), [])"
  by (simp add: y_max_def run_on_simps series_max_def)

lemma run_on_fig1:
  "run_on (fig1 nx item bins color fontsize lo hi) d =
     (Inr (), [Subplot nx 1, Histplot item bins color, Ylim lo hi, Xticks 90,
        Title (''Distribition of '' @ item) fontsize])"
  by (simp add: fig1_def run_on_simps)

lemma run_on_fig2:
  "map_of d item = Some a \<Longrightarrow>
   run_on (fig2 nx item target_name target_type color fontsize lo hi) d =
     (if target_type = ''numeric'' then
        (Inr (), [Subplot nx 2, Boxenplot None a (Some color), Ylim lo hi, Ylabel [],
           Title item fontsize])
      else
        (case map_of d target_name of
           None \<Rightarrow> (Inl (KeyError target_name), [Subplot nx 2])
         | Some b \<Rightarrow>
             (Inr (), [Subplot nx 2, Boxenplot (Some b) a None, Xticks 90, Ylim lo hi,
                Ylabel [], Title item fontsize])))"
  by (simp add: fig2_def run_on_simps split: option.splits)

lemma run_on_fig3:
  "map_of d item = Some a \<Longrightarrow>
   run_on (fig3 lib nx item target_name target_type color fontsize lo hi) d =
     (if item = target_name then (Inr (), [])
      else
        (case map_of d target_name of
           None \<Rightarrow>
             (if target_type = ''numeric'' \<or> target_type = ''categorical''
              then (Inl (KeyError target_name), [Subplot nx 3])
              else (Inr (), [Subplot nx 3, Ylim lo hi]))
         | Some b \<Rightarrow>
             (Inr (), Subplot nx 3 #
                (if target_type = ''numeric'' then [Plot b a color, Xticks 90]
                 else if target_type = ''categorical'' then
                   concat (map (\<lambda>v.
                     [Kdeplot (select_rows (eq_mask b v) a)
                        (format_value lib v @ '': '' @ str_nat (count_rows (eq_mask b v))),
                      Title item fontsize, Legend (fontsize - 1)]) (unique b))
                 else []) @ [Ylim lo hi])))"
  by (simp add: fig3_def run_on_simps run_on_kde_loop split: option.splits)

lemma run_on_descriptive_statistics:
  "map_of d item = Some a \<Longrightarrow>
   run_on (descriptive_statistics item data_info) d =
     (Inr (), [Print (''==== '' @ item @ '' ===='' ),
        (case loc_row data_info item of
           Inl e \<Rightarrow> Print (missing_msg (isna_sum a) item)
         | Inr rows \<Rightarrow> Display (InfoRows rows)),
        Print ''>>> Statistics:'', Display (Describer a)])"
  by (simp add: descriptive_statistics_def run_on_simps split: sum.splits)

lemma run_on_correlation:
  "map_of d item = Some a \<Longrightarrow> map_of d target_name = Some b \<Longrightarrow>
   run_on (correlation lib item target_name target_type fontsize) d =
     (if item \<noteq> target_name \<and> target_type = ''numeric'' then
        (case corr lib Pearson a b of
           Inl e \<Rightarrow> (Inl e, [])
         | Inr p \<Rightarrow>
             (case corr lib Spearman a b of
                Inl e \<Rightarrow> (Inl e, [])
              | Inr s \<Rightarrow>
                  (Inr (Some (p, s)),
                   [Print ''>>> Correlation:'', Print (pearson_msg lib item target_name p),
                    Print (spearman_msg lib item target_name s),
                    Title (corr_title lib p s) fontsize])))
      else (Inr None, []))"
  by (simp add: correlation_def corr_entry_def run_on_simps split: sum.splits)

lemma run_on_correlation_None:
  "item = target_name \<or> target_type \<noteq> ''numeric'' \<Longrightarrow>
   run_on (correlation lib item target_name target_type fontsize) d = (Inr None, [])"
  by (auto simp add: correlation_def run_on_simps)

lemma run_on_conclusion:
  "run_on (conclusion descr_dict item) d =
     (Inr (), case getitem descr_dict item of
        Inl e \<Rightarrow> []
      | Inr v \<Rightarrow> [Print (''>>> CONCLUSION: '' @ v)])"
  by (simp add: conclusion_def run_on_simps split: sum.splits)

lemmas run_on_sections =
  run_on_item_range run_on_y_min run_on_y_max run_on_fig1 run_on_fig2 run_on_fig3
  run_on_descriptive_statistics run_on_correlation run_on_correlation_None run_on_conclusion

lemma emitted_tidy: "tidy m \<Longrightarrow> emitted m w = snd (run_on m (dataset w))"
  using tidy_run [of m w "fst (run_on m (dataset w))" "snd (run_on m (dataset w))"]
  by (simp add: emitted_def)

lemma fst_tidy: "tidy m \<Longrightarrow> fst (m w) = fst (run_on m (dataset w))"
  using tidy_run [of m w "fst (run_on m (dataset w))" "snd (run_on m (dataset w))"]
  by simp


lemmas run_nva = num_variable_analysis_def run_on_simps run_on_sections

lemma outcome_num_variable_analysis:
  assumes "target_type = ''numeric'' \<or> target_type = ''categorical''"
  shows "fst (run_on (num_variable_analysis lib item target_name target_type bins color
      fontsize descr_dict data_info) d) =
    (case map_of d item of
       None \<Rightarrow> Inl (KeyError item)
     | Some a \<Rightarrow>
         if list_ex is_str a then Inl TypeError
         else if item = target_name then Inr None
         else
           (case map_of d target_name of
              None \<Rightarrow> Inl (KeyError target_name)
            | Some b \<Rightarrow>
                if target_type = ''numeric'' then
                  (case corr lib Pearson a b of
                     Inl e \<Rightarrow> Inl e
                   | Inr p \<Rightarrow>
                       (case corr lib Spearman a b of
                          Inl e \<Rightarrow> Inl e
                        | Inr s \<Rightarrow> Inr (Some (p, s))))
                else Inr None))"
proof (cases "map_of d item")
  case None
  then show ?thesis
    using assms by (auto simp add: run_nva)
next
  case (Some a)
  show ?thesis
  proof (cases "list_ex is_str a")
    case True
    then show ?thesis
      using assms Some by (auto simp add: run_nva)
  next
    case False
    show ?thesis
    proof (cases "item = target_name")
      case True
      then show ?thesis
        using assms Some False by (auto simp add: run_nva)
    next
      case ne: False
      show ?thesis
      proof (cases "map_of d target_name")
        case None
        then show ?thesis
          using assms Some False ne by (auto simp add: run_nva)
      next
        case b: (Some b)
        then show ?thesis
          using assms Some False ne by (auto simp add: run_nva split: sum.splits)
      qed
    qed
  qed
qed


lemma returns_D:
  assumes "target_type = ''numeric'' \<or> target_type = ''categorical''"
    and "fst (run_on (num_variable_analysis lib item target_name target_type bins color
      fontsize descr_dict data_info) d) = Inr r"
  obtains a b where "map_of d item = Some a" and "\<not> list_ex is_str a"
    and "map_of d target_name = Some b"
    and "item \<noteq> target_name \<and> target_type = ''numeric'' \<longrightarrow>
      (\<exists>p s. corr lib Pearson a b = Inr p \<and> corr lib Spearman a b = Inr s \<and> r = Some (p, s))"
  using assms(2) unfolding outcome_num_variable_analysis [OF assms(1)]
  by (auto split: option.splits if_splits sum.splits)

lemma kde_figures:
  "figures (concat (map (\<lambda>v. [Kdeplot (f v) (g v), Title i n, Legend l]) vs) @ es) = figures es"
  by (induction vs) simp_all

lemma kde_selected:
  "selected (concat (map (\<lambda>v. [Kdeplot (f v) (g v), Title i n, Legend l]) vs) @ es) = selected es"
  by (induction vs) simp_all

lemma kde_ylim_calls:
  "ylim_calls cur (concat (map (\<lambda>v. [Kdeplot (f v) (g v), Title i n, Legend l]) vs) @ es) =
     ylim_calls cur es"
  by (induction vs) simp_all

lemma kde_conclusion_line:
  "list_ex conclusion_line (concat (map (\<lambda>v. [Kdeplot (f v) (g v), Title i n, Legend l]) vs)) = False"
  by (induction vs) simp_all

lemma panels_2: "[Suc 0 ..< 3] = [Suc 0, 2]"
  by (simp add: upt_conv_Cons)

lemma panels_3: "[Suc 0 ..< 4] = [Suc 0, 2, 3]"
  by (simp add: upt_conv_Cons)

lemma kde_after_show:
  "after_show (concat (map (\<lambda>v. [Kdeplot (f v) (g v), Title i n, Legend l]) vs) @ es) =
     after_show es"
  by (induction vs) simp_all

lemma kde_filter_conclusion_line:
  "filter conclusion_line (concat (map (\<lambda>v. [Kdeplot (f v) (g v), Title i n, Legend l]) vs)) = []"
  by (induction vs) simp_all

lemma kde_not_Print:
  "Print s \<notin> set (concat (map (\<lambda>v. [Kdeplot (f v) (g v), Title i n, Legend l]) vs))"
  by (induction vs) simp_all

lemma kde_not_Display:
  "Display x \<notin> set (concat (map (\<lambda>v. [Kdeplot (f v) (g v), Title i n, Legend l]) vs))"
  by (induction vs) simp_all

lemmas kde_simps =
  kde_figures kde_selected kde_ylim_calls kde_conclusion_line kde_after_show
  kde_filter_conclusion_line kde_not_Print kde_not_Display panels_2 panels_3

lemmas call_defs =
  num_variable_analysis_def then_py_def try_except_def emit_def ret_def raise_def lift_def
  column_def item_range_def y_min_def y_max_def fig1_def fig2_def fig3_def
  descriptive_statistics_def correlation_def corr_entry_def conclusion_def
  series_max_def series_min_def nan_max_def nan_min_def loc_row_def getitem_def
  example_world_def example_frame_def nan_library_def

section \<open>The value axis\<close>



section \<open>The check of the target type\<close>

text \<open>
  Claim C2. When \<open>target_type\<close> is neither \<^verbatim>\<open>'numeric'\<close> nor \<^verbatim>\<open>'categorical'\<close>, the call
  raises the assertion error with its message (the error the specification calls
  InvalidArgument) and leaves the world as it found it: no figure is created, nothing
  is drawn and nothing is printed.
\<close>

theorem invalid_target_type_raises:
  assumes "target_type \<notin> {''numeric'', ''categorical''}"
  shows "num_variable_analysis lib item target_name target_type bins color fontsize
      descr_dict data_info w = (Inl (AssertionError assert_msg), w)"
  using assms by (simp add: num_variable_analysis_def raise_def)

text \<open>The example, called with the target type \<^verbatim>\<open>'ordinal'\<close>.\<close>

theorem invalid_target_type_raises_witness:
  "num_variable_analysis nan_library ''age'' ''price'' ''ordinal'' (BinCount 100)
      (ColorName ''maroon'') 14 None NoDataInfo example_world =
    (Inl (AssertionError assert_msg), example_world)"
proof -
  have h: "''ordinal'' \<notin> {''numeric'', ''categorical''}"
    by simp
  show ?thesis
    by (rule invalid_target_type_raises [OF h])
qed

section \<open>The value returned\<close>









section \<open>The figure\<close>

lemma figures_num_variable_analysis:
  assumes "target_type = ''numeric'' \<or> target_type = ''categorical''"
  shows "figures (snd (run_on (num_variable_analysis lib item target_name target_type bins
      color fontsize descr_dict data_info) d)) = [if item \<noteq> target_name then 3 else 2]"
proof (cases "map_of d item")
  case None
  then show ?thesis
    using assms by (auto simp add: run_nva)
next
  case (Some a)
  show ?thesis
  proof (cases "list_ex is_str a")
    case True
    then show ?thesis
      using assms Some by (auto simp add: run_nva)
  next
    case False
    show ?thesis
    proof (cases "item = target_name")
      case True
      then show ?thesis
        using assms Some False by (auto simp add: run_nva kde_simps split: sum.splits)
    next
      case ne: False
      show ?thesis
      proof (cases "map_of d target_name")
        case None
        then show ?thesis
          using assms Some False ne by (auto simp add: run_nva kde_simps split: sum.splits)
      next
        case b: (Some b)
        then show ?thesis
          using assms Some False ne by (auto simp add: run_nva kde_simps split: sum.splits)
      qed
    qed
  qed
qed

lemma selected_num_variable_analysis:
  assumes "target_type = ''numeric'' \<or> target_type = ''categorical''"
  shows "list_all (\<lambda>(n, k). n = (if item \<noteq> target_name then 3 else 2) \<and> 1 \<le> k \<and> k \<le> n)
    (selected (snd (run_on (num_variable_analysis lib item target_name target_type bins
      color fontsize descr_dict data_info) d)))"
proof (cases "map_of d item")
  case None
  then show ?thesis
    using assms by (auto simp add: run_nva)
next
  case (Some a)
  show ?thesis
  proof (cases "list_ex is_str a")
    case True
    then show ?thesis
      using assms Some by (auto simp add: run_nva)
  next
    case False
    show ?thesis
    proof (cases "item = target_name")
      case True
      then show ?thesis
        using assms Some False by (auto simp add: run_nva kde_simps split: sum.splits)
    next
      case ne: False
      show ?thesis
      proof (cases "map_of d target_name")
        case None
        then show ?thesis
          using assms Some False ne by (auto simp add: run_nva kde_simps split: sum.splits)
      next
        case b: (Some b)
        then show ?thesis
          using assms Some False ne by (auto simp add: run_nva kde_simps split: sum.splits)
      qed
    qed
  qed
qed

lemma selected_returning:
  assumes "target_type = ''numeric'' \<or> target_type = ''categorical''"
    and "fst (run_on (num_variable_analysis lib item target_name target_type bins color
      fontsize descr_dict data_info) d) = Inr r"
  shows "selected (snd (run_on (num_variable_analysis lib item target_name target_type bins
      color fontsize descr_dict data_info) d)) =
    (if item \<noteq> target_name then [(3, 1), (3, 2), (3, 3)] else [(2, 1), (2, 2)])"
proof -
  obtain a b where "map_of d item = Some a" and "\<not> list_ex is_str a"
    and "map_of d target_name = Some b"
    and "item \<noteq> target_name \<and> target_type = ''numeric'' \<longrightarrow>
      (\<exists>p s. corr lib Pearson a b = Inr p \<and> corr lib Spearman a b = Inr s \<and> r = Some (p, s))"
    by (rule returns_D [OF assms])
  then show ?thesis
    using assms(1)
    by (cases "item = target_name") (auto simp add: run_nva kde_simps split: sum.splits)
qed

text \<open>
  Claim C7. A call that passes the check of \<open>target_type\<close> creates exactly one figure,
  with 3 panels when \<open>item\<close> differs from \<open>target_name\<close> and with 2 panels when they
  are the same; every panel it selects is one of these, and a call that returns has
  selected each of them once, in order (no third panel when the two names are the
  same).
\<close>

theorem panel_count:
  assumes "target_type \<in> {''numeric'', ''categorical''}"
  shows "figures (emitted (num_variable_analysis lib item target_name target_type bins color
        fontsize descr_dict data_info) w) = [if item \<noteq> target_name then 3 else 2] \<and>
    list_all (\<lambda>(n, k). n = (if item \<noteq> target_name then 3 else 2) \<and> 1 \<le> k \<and> k \<le> n)
      (selected (emitted (num_variable_analysis lib item target_name target_type bins color
        fontsize descr_dict data_info) w)) \<and>
    (fst (num_variable_analysis lib item target_name target_type bins color
        fontsize descr_dict data_info w) = Inr r \<longrightarrow>
      selected (emitted (num_variable_analysis lib item target_name target_type bins color
        fontsize descr_dict data_info) w) =
      (if item \<noteq> target_name then [(3, 1), (3, 2), (3, 3)] else [(2, 1), (2, 2)]))"
proof -
  have valid: "target_type = ''numeric'' \<or> target_type = ''categorical''"
    using assms by simp
  show ?thesis
    unfolding emitted_tidy [OF tidy_num_variable_analysis]
      fst_tidy [OF tidy_num_variable_analysis]
    by (intro conjI impI figures_num_variable_analysis [OF valid]
        selected_num_variable_analysis [OF valid])
      (erule selected_returning [OF valid])
qed

text \<open>The example: three panels for \<^verbatim>\<open>age\<close> against \<^verbatim>\<open>price\<close>, two for \<^verbatim>\<open>age\<close> alone.\<close>

theorem panel_count_witness:
  "figures (emitted (num_variable_analysis nan_library ''age'' ''price'' ''numeric''
      (BinCount 100) (ColorName ''maroon'') 14 None NoDataInfo) example_world) = [3] \<and>
   selected (emitted (num_variable_analysis nan_library ''age'' ''price'' ''numeric''
      (BinCount 100) (ColorName ''maroon'') 14 None NoDataInfo) example_world) =
     [(3, 1), (3, 2), (3, 3)] \<and>
   figures (emitted (num_variable_analysis nan_library ''age'' ''age'' ''numeric''
      (BinCount 100) (ColorName ''maroon'') 14 None NoDataInfo) example_world) = [2] \<and>
   selected (emitted (num_variable_analysis nan_library ''age'' ''age'' ''numeric''
      (BinCount 100) (ColorName ''maroon'') 14 None NoDataInfo) example_world) =
     [(2, 1), (2, 2)]"
proof -
  have h: "''numeric'' \<in> {''numeric'', ''categorical''}"
    by simp
  have r3: "fst (num_variable_analysis nan_library ''age'' ''price'' ''numeric''
      (BinCount 100) (ColorName ''maroon'') 14 None NoDataInfo example_world) =
      Inr (Some (NaN, NaN))"
    by (simp add: call_defs)
  have r2: "fst (num_variable_analysis nan_library ''age'' ''age'' ''numeric''
      (BinCount 100) (ColorName ''maroon'') 14 None NoDataInfo example_world) = Inr None"
    by (simp add: call_defs)
  show ?thesis
    using panel_count [OF h, of nan_library "''age''" "''price''" "BinCount 100"
        "ColorName ''maroon''" 14 None NoDataInfo example_world "Some (NaN, NaN)"]
      panel_count [OF h, of nan_library "''age''" "''age''" "BinCount 100"
        "ColorName ''maroon''" 14 None NoDataInfo example_world None]
      r3 r2
    by simp
qed

section \<open>The frame\<close>


section \<open>The printed report\<close>




lemma not_conclusion_prefix:
  "take 15 (missing_msg n item) \<noteq> ''>>> CONCLUSION:''"
  "take 15 (pearson_msg lib item target_name p) \<noteq> ''>>> CONCLUSION:''"
  "take 15 (spearman_msg lib item target_name s) \<noteq> ''>>> CONCLUSION:''"
  by (simp_all add: missing_msg_def pearson_msg_def spearman_msg_def)

lemma conclusion_events:
  assumes "target_type = ''numeric'' \<or> target_type = ''categorical''"
    and "fst (run_on (num_variable_analysis lib item target_name target_type bins color
      fontsize descr_dict data_info) d) = Inr r"
  shows "after_show (snd (run_on (num_variable_analysis lib item target_name target_type bins
        color fontsize descr_dict data_info) d)) =
      (case getitem descr_dict item of
         Inl e \<Rightarrow> [Print [newline, newline]]
       | Inr v \<Rightarrow> [Print (''>>> CONCLUSION: '' @ v), Print [newline, newline]]) \<and>
    filter conclusion_line (snd (run_on (num_variable_analysis lib item target_name
        target_type bins color fontsize descr_dict data_info) d)) =
      (case getitem descr_dict item of
         Inl e \<Rightarrow> []
       | Inr v \<Rightarrow> [Print (''>>> CONCLUSION: '' @ v)])"
proof -
  obtain a b where a: "map_of d item = Some a" and ns: "\<not> list_ex is_str a"
    and b: "map_of d target_name = Some b"
    and c: "item \<noteq> target_name \<and> target_type = ''numeric'' \<longrightarrow>
      (\<exists>p s. corr lib Pearson a b = Inr p \<and> corr lib Spearman a b = Inr s \<and>
        r = Some (p, s))"
    by (rule returns_D [OF assms])
  consider (same) "item = target_name"
    | (num) p s where "item \<noteq> target_name" and "target_type = ''numeric''"
        and "corr lib Pearson a b = Inr p" and "corr lib Spearman a b = Inr s"
    | (cat) "item \<noteq> target_name" and "target_type = ''categorical''"
    using assms(1) c by auto
  then show ?thesis
  proof cases
    case same
    then show ?thesis
      using assms(1) a ns b
      by (cases "loc_row data_info item"; cases "getitem descr_dict item")
        (auto simp add: run_nva kde_simps not_conclusion_prefix newline_def)
  next
    case num
    then show ?thesis
      using a ns b
      by (cases "loc_row data_info item"; cases "getitem descr_dict item")
        (simp_all add: run_nva kde_simps not_conclusion_prefix newline_def)
  next
    case cat
    then show ?thesis
      using a ns b
      by (cases "loc_row data_info item"; cases "getitem descr_dict item")
        (simp_all add: run_nva kde_simps not_conclusion_prefix newline_def)
  qed
qed

text \<open>
  Claim C6. On a call that returns: when \<open>descr_dict\<close> is a dictionary with an entry for
  \<open>item\<close>, the line \<^verbatim>\<open>>>> CONCLUSION:\<close> with the entry's value is printed after the
  figure is shown (only the closing blank lines follow it) and it is the only such
  line; when \<open>descr_dict\<close> is \<^verbatim>\<open>None\<close> or has no entry for \<open>item\<close>, no such line is
  printed. In both cases no error is raised: the call returns the same value with any
  other \<open>descr_dict\<close>.
\<close>

theorem conclusion_printed_iff_annotated:
  assumes "target_type \<in> {''numeric'', ''categorical''}"
    and "fst (num_variable_analysis lib item target_name target_type bins color fontsize
        descr_dict data_info w) = Inr r"
  shows "(descr_dict = Some d \<and> d item = Some v \<longrightarrow>
      after_show (emitted (num_variable_analysis lib item target_name target_type bins color
        fontsize descr_dict data_info) w) =
        [Print (''>>> CONCLUSION: '' @ v), Print [newline, newline]] \<and>
      filter conclusion_line (emitted (num_variable_analysis lib item target_name target_type
        bins color fontsize descr_dict data_info) w) = [Print (''>>> CONCLUSION: '' @ v)]) \<and>
    (descr_dict = None \<or> (descr_dict = Some d \<and> d item = None) \<longrightarrow>
      after_show (emitted (num_variable_analysis lib item target_name target_type bins color
        fontsize descr_dict data_info) w) = [Print [newline, newline]] \<and>
      filter conclusion_line (emitted (num_variable_analysis lib item target_name target_type
        bins color fontsize descr_dict data_info) w) = []) \<and>
    fst (num_variable_analysis lib item target_name target_type bins color fontsize
        other_dict data_info w) = Inr r"
proof -
  let ?call = "num_variable_analysis lib item target_name target_type bins color fontsize
      descr_dict data_info"
  have valid: "target_type = ''numeric'' \<or> target_type = ''categorical''"
    using assms(1) by simp
  have ret: "fst (run_on ?call (dataset w)) = Inr r"
    using assms(2) by (simp add: fst_tidy tidy_num_variable_analysis)
  have same: "fst (num_variable_analysis lib item target_name target_type bins color fontsize
        other_dict data_info w) = Inr r"
    using ret unfolding fst_tidy [OF tidy_num_variable_analysis]
    by (simp add: outcome_num_variable_analysis [OF valid])
  note ev = conclusion_events [OF valid ret, THEN conjunct1]
    conclusion_events [OF valid ret, THEN conjunct2]
  have present: "after_show (emitted ?call w) =
        [Print (''>>> CONCLUSION: '' @ v), Print [newline, newline]] \<and>
      filter conclusion_line (emitted ?call w) = [Print (''>>> CONCLUSION: '' @ v)]"
    if "descr_dict = Some d \<and> d item = Some v"
    unfolding emitted_tidy [OF tidy_num_variable_analysis] ev
    using that by (simp add: getitem_def)
  have absent: "after_show (emitted ?call w) = [Print [newline, newline]] \<and>
      filter conclusion_line (emitted ?call w) = []"
    if "descr_dict = None \<or> (descr_dict = Some d \<and> d item = None)"
    unfolding emitted_tidy [OF tidy_num_variable_analysis] ev
    using that by (auto simp add: getitem_def)
  show ?thesis
    using same present absent by blast
qed

text \<open>
  The example, once with an annotation for \<^verbatim>\<open>age\<close> and once with an annotation for
  another column only.
\<close>

theorem conclusion_printed_iff_annotated_witness:
  "after_show (emitted (num_variable_analysis nan_library ''age'' ''price'' ''numeric''
      (BinCount 100) (ColorName ''maroon'') 14 (Some [''age'' \<mapsto> ''skewed'']) NoDataInfo)
      example_world) = [Print ''>>> CONCLUSION: skewed'', Print [newline, newline]] \<and>
   after_show (emitted (num_variable_analysis nan_library ''age'' ''price'' ''numeric''
      (BinCount 100) (ColorName ''maroon'') 14 (Some [''price'' \<mapsto> ''target'']) NoDataInfo)
      example_world) = [Print [newline, newline]]"
proof -
  have h1: "''numeric'' \<in> {''numeric'', ''categorical''}"
    by simp
  have h2: "fst (num_variable_analysis nan_library ''age'' ''price'' ''numeric''
      (BinCount 100) (ColorName ''maroon'') 14 (Some [''age'' \<mapsto> ''skewed'']) NoDataInfo
      example_world) = Inr (Some (NaN, NaN))"
    by (simp add: call_defs)
  have h3: "fst (num_variable_analysis nan_library ''age'' ''price'' ''numeric''
      (BinCount 100) (ColorName ''maroon'') 14 (Some [''price'' \<mapsto> ''target'']) NoDataInfo
      example_world) = Inr (Some (NaN, NaN))"
    by (simp add: call_defs)
  show ?thesis
    using conclusion_printed_iff_annotated [OF h1 h2, of "[''age'' \<mapsto> ''skewed'']" "''skewed''" None]
      conclusion_printed_iff_annotated [OF h1 h3, of "[''price'' \<mapsto> ''target'']" "''skewed''" None]
    by simp
qed

section \<open>The coefficients\<close>

text \<open>
  With a numeric target and two different columns, the call returns the pair that the
  correlation of the library gives for the two columns, Pearson's first, whenever the
  library computes both.
\<close>

lemma numeric_target_returns_library_coefficients:
  assumes "item \<noteq> target_name" and "target_type = ''numeric''"
    and "map_of (dataset w) item = Some a" and "\<not> list_ex is_str a"
    and "map_of (dataset w) target_name = Some b"
    and "corr lib Pearson a b = Inr p" and "corr lib Spearman a b = Inr s"
  shows "fst (num_variable_analysis lib item target_name target_type bins color fontsize
      descr_dict data_info w) = Inr (Some (p, s))"
proof -
  have valid: "target_type = ''numeric'' \<or> target_type = ''categorical''"
    using assms(2) by simp
  show ?thesis
    unfolding fst_tidy [OF tidy_num_variable_analysis]
      outcome_num_variable_analysis [OF valid]
    using assms by simp
qed

end
